theory Spec2Isabelle
  imports Main "HOL-Library.Word"
begin

unbundle bit_operations_syntax

section \<open>Shared vocabulary\<close>

text \<open>
  Bytes are 8-bit words, Go's \<open>[]byte\<close> is a list of them, and an \<open>io.Reader\<close> over a
  \<open>bytes.Buffer\<close> is the list of bytes not yet read. Go's \<open>error\<close> results are values of
  \<open>error option\<close> (\<open>None\<close> is \<open>nil\<close>); a panic is a value of its own type, so that every
  path of the source that does not return normally is a branch of the model.
\<close>

type_synonym byte = "8 word"

datatype error =
    EOF
  | ErrUnexpectedEOF
  | SourceAccountNotFound "32 word"
  | InsufficientBalance
  | GetBlocksRequestFailed
  | LoopbackConnection
  | ExternalError string

datatype panic =
    Unimplemented
  | CustomSerializationFailed error
  | CustomDeserializationFailed error
  | NotSerializable
  | MakeSliceLenOutOfRange
  | NilPointerDereference

text \<open>
  Go's builtin \<open>copy(dst, src)\<close>: the first \<open>min (len dst) (len src)\<close> elements of
  \<open>dst\<close> are overwritten, the others stay.
\<close>

definition copy_slice :: "'a list \<Rightarrow> 'a list \<Rightarrow> 'a list" where
  "copy_slice dst src = take (length dst) src @ drop (length src) dst"

section \<open>network/pasl/connection.go: the peer state\<close>

record pascalConnectionState =
  height :: "32 word"
  prevSafeboxHash :: "byte list"

text \<open>
  The fields of \<open>PascalConnection\<close> that the modelled methods read or write. The pointer
  \<open>state\<close> is \<open>None\<close> while it is nil. A channel is the list of what has been sent on
  it, oldest first; \<open>onStateUpdate\<close> carries the connection itself, so its log only
  counts the sends.
\<close>

record 'peer PascalConnection =
  nonce :: "byte list"
  state :: "pascalConnectionState option"
  onStateUpdate :: nat
  peerUpdates :: "'peer list"

definition SetState ::
  "'peer PascalConnection \<Rightarrow> 32 word \<Rightarrow> byte list \<Rightarrow> 'peer PascalConnection" where
  "SetState this height' prevSafeboxHash' =
     this\<lparr>state := Some \<lparr>height = height',
                            prevSafeboxHash = copy_slice (replicate 32 0) prevSafeboxHash'\<rparr>,
          onStateUpdate := Suc (onStateUpdate this)\<rparr>"

definition GetState :: "'peer PascalConnection \<Rightarrow> panic + (32 word \<times> byte list)" where
  "GetState this =
     (case state this of
        None \<Rightarrow> Inl NilPointerDereference
      | Some st \<Rightarrow> Inr (height st, prevSafeboxHash st))"

section \<open>Properties of the peer state\<close>

lemma copy_slice_zero_pad:
  "copy_slice (replicate n z) src
     = take (min n (length src)) src @ replicate (n - min n (length src)) z"
  by (cases "length src \<le> n") (simp_all add: copy_slice_def min_def)

text \<open>
  C10. After \<open>SetState height hash\<close> the stored state holds the given height and a
  32-byte hash made of the first \<open>min 32 (length hash)\<close> bytes of the input followed by
  zeros; \<open>GetState\<close> returns that pair, and the hash it returns is 32 bytes long whatever
  the length of the input. The connection is also sent once on \<open>onStateUpdate\<close>.
\<close>

theorem SetState_GetState:
  "GetState (SetState this h hash)
     = Inr (h, take (min 32 (length hash)) hash @ replicate (32 - min 32 (length hash)) 0)
   \<and> length (take (min 32 (length hash)) hash @ replicate (32 - min 32 (length hash)) (0::byte)) = 32
   \<and> state (SetState this h hash)
       = Some \<lparr>height = h,
                prevSafeboxHash =
                  take (min 32 (length hash)) hash @ replicate (32 - min 32 (length hash)) 0\<rparr>
   \<and> onStateUpdate (SetState this h hash) = Suc (onStateUpdate this)"
  by (simp add: GetState_def SetState_def copy_slice_zero_pad)

end
